theory Spec2Isabelle
  imports Complex_Main "HOL-Library.Product_Lexorder" "HOL-Library.List_Lexorder" "HOL-Library.Sublist"
    "HOL-Library.Log_Nat"
begin

section \<open>Data model\<close>

text \<open>
  Document identifiers (Mongo ObjectIds) are natural numbers and dates are integers
  (milliseconds since the epoch, as \<^verbatim>\<open>Date.now()\<close> gives them). A JavaScript Number
  is a finite IEEE 754 double, given by the rational it denotes; the values NaN and
  Infinity are outside the model.
\<close>

type_synonym objectId = nat
type_synonym date = int

section \<open>JavaScript numbers\<close>

text \<open>
  \<open>expo x\<close> is the binary exponent of a positive rational: the integer \<open>e\<close> with
  \<open>2\<^sup>e \<le> x < 2\<^sup>e\<^sup>+\<^sup>1\<close>.
\<close>

definition expo :: "rat \<Rightarrow> int" where
  "expo x = (if x \<ge> 1 then int (floorlog 2 (nat \<lfloor>x\<rfloor>)) - 1
             else - int (floorlog 2 (nat \<lceil>1 / x\<rceil> - 1)))"

text \<open>Rounding to the nearest integer, a tie going to the even one.\<close>

definition roundHalfEven :: "rat \<Rightarrow> int" where
  "roundHalfEven x =
     (let f = \<lfloor>x\<rfloor>; r = x - of_int f in
      if r < 1 / 2 then f else if r > 1 / 2 then f + 1 else if even f then f else f + 1)"

text \<open>
  The spacing of the doubles around \<open>x\<close>: 53 significant bits, and the fixed spacing of
  the subnormal numbers below \<open>2\<^sup>-\<^sup>1\<^sup>0\<^sup>2\<^sup>2\<close>.
\<close>

definition ulp :: "rat \<Rightarrow> rat" where
  "ulp x = 2 powi (max (expo \<bar>x\<bar>) (- 1022) - 52)"

text \<open>
  \<open>fl x\<close> is the double nearest to \<open>x\<close> (round to nearest, ties to even): the value
  that an arithmetic operation of JavaScript returns when its exact result is \<open>x\<close>, and
  the value of a decimal literal. Overflow to Infinity is not modelled.
\<close>

definition fl :: "rat \<Rightarrow> rat" where
  "fl x = (if x = 0 then 0 else sgn x * of_int (roundHalfEven (\<bar>x\<bar> / ulp x)) * ulp x)"

text \<open>\<^verbatim>\<open>String.prototype.trim\<close>, which is also the \<^verbatim>\<open>trim\<close> setter of a schema string.\<close>

definition isSpace :: "char \<Rightarrow> bool" where
  "isSpace c \<longleftrightarrow> c \<in> set [CHR '' '', CHR 0x09, CHR 0x0A, CHR 0x0B, CHR 0x0C, CHR 0x0D]"

definition trim :: "string \<Rightarrow> string" where
  "trim s = rev (dropWhile isSpace (rev (dropWhile isSpace s)))"

text \<open>The \<^verbatim>\<open>interactions\<close> sub-document of \<^verbatim>\<open>propertyViewSchema\<close> (models/PropertyView.js).\<close>

record interactions =
  imageViews :: nat
  imageGalleryOpened :: bool
  mapViewed :: bool
  contactClicked :: bool
  phoneRevealed :: bool
  whatsappClicked :: bool
  shareClicked :: bool
  favorited :: bool
  inquirySent :: bool

text \<open>
  A document of \<^verbatim>\<open>propertyViewSchema\<close>; \<open>view_id\<close> is the document's \<^verbatim>\<open>_id\<close>. The
  optional payload (userAgent, device, location, referrer, searchQuery) is not stored in
  the model; the modelled calls carry none of it, or a payload that the schema accepts.
\<close>

record PropertyView =
  view_id :: objectId
  property :: objectId
  viewer :: "objectId option"
  sessionId :: string
  ipAddress :: string
  source :: string
  viewDuration :: rat
  scrollDepth :: rat
  interactions :: interactions
  bounced :: bool
  isUnique :: bool
  viewedAt :: date
  exitedAt :: "date option"

text \<open>The schema defaults of the interaction bundle: every flag false, no image views.\<close>

definition defaultInteractions :: interactions where
  "defaultInteractions =
     \<lparr>imageViews = 0, imageGalleryOpened = False, mapViewed = False, contactClicked = False,
      phoneRevealed = False, whatsappClicked = False, shareClicked = False, favorited = False,
      inquirySent = False\<rparr>"

section \<open>Engagement scorer\<close>

text \<open>\<^verbatim>\<open>Math.round\<close>: the nearest integer, a tie going towards plus infinity.\<close>

definition js_round :: "rat \<Rightarrow> int" where
  "js_round x = \<lfloor>x + 1 / 2\<rfloor>"

text \<open>
  The virtual \<^verbatim>\<open>engagementScore\<close> of models/PropertyView.js, statement by statement:
  the accumulator \<open>score\<close> is rebound by each \<^verbatim>\<open>score += ...\<close>, and every division,
  multiplication and addition rounds its result to a double. \<^verbatim>\<open>Math.round\<close> and
  \<^verbatim>\<open>Math.min\<close> are exact.
\<close>

definition engagementScore :: "PropertyView \<Rightarrow> int" where
  "engagementScore v =
     (let score = 0;
          score = (if viewDuration v > 0
                   then fl (score + min 30 (fl (fl (viewDuration v / 300) * 30))) else score);
          score = fl (score + fl (fl (scrollDepth v / 100) * 20));
          i = interactions v;
          score = (if imageGalleryOpened i then fl (score + 5) else score);
          score = (if mapViewed i then fl (score + 5) else score);
          score = (if contactClicked i then fl (score + 10) else score);
          score = (if phoneRevealed i then fl (score + 8) else score);
          score = (if whatsappClicked i then fl (score + 7) else score);
          score = (if favorited i then fl (score + 10) else score);
          score = (if inquirySent i then fl (score + 15) else score)
      in min 100 (js_round score))"

text \<open>The virtual \<^verbatim>\<open>isHighIntent\<close>.\<close>

definition isHighIntent :: "PropertyView \<Rightarrow> bool" where
  "isHighIntent v \<longleftrightarrow>
     engagementScore v \<ge> 60 \<or> inquirySent (interactions v) \<or> phoneRevealed (interactions v)"

text \<open>
  The steps of the score, named for the proofs below: one conditional addition, the list
  of the weighted flags in the order of the code, the run of the seven additions, and the
  score before the first flag.
\<close>

definition addPoints :: "bool \<Rightarrow> rat \<Rightarrow> rat \<Rightarrow> rat" where
  "addPoints b k score = (if b then fl (score + k) else score)"



definition baseScore :: "rat \<Rightarrow> rat \<Rightarrow> rat" where
  "baseScore d s =
     fl (addPoints (d > 0) (min 30 (fl (fl (d / 300) * 30))) 0 + fl (fl (s / 100) * 20))"

text \<open>
  Sample events: a short anonymous visit, and a visit on which every weighted interaction
  happened while duration and scroll depth stayed at their defaults.
\<close>

definition sampleView :: PropertyView where
  "sampleView =
     \<lparr>view_id = 0, property = 7, viewer = None, sessionId = ''s-1'',
      ipAddress = ''203.0.113.7'', source = ''direct'', viewDuration = 4,
      scrollDepth = 10, interactions = defaultInteractions, bounced = True, isUnique = True,
      viewedAt = 1000, exitedAt = None\<rparr>"

definition allFlagsView :: PropertyView where
  "allFlagsView =
     \<lparr>view_id = 1, property = 7, viewer = None, sessionId = ''s-2'',
      ipAddress = ''203.0.113.7'', source = ''direct'', viewDuration = 0,
      scrollDepth = 0,
      interactions = \<lparr>imageViews = 0, imageGalleryOpened = True, mapViewed = True,
        contactClicked = True, phoneRevealed = True, whatsappClicked = True,
        shareClicked = False, favorited = True, inquirySent = True\<rparr>,
      bounced = False, isUnique = True, viewedAt = 1000, exitedAt = None\<rparr>"

section \<open>Listings and the store\<close>

text \<open>
  Modelled from the spec: the Property model (models/Property.js) is not among the
  sources. The record holds the listing fields of section 3 of the spec under the names by
  which the services and pipelines under src/ read and write them; \<open>prop_id\<close> is the
  document's \<^verbatim>\<open>_id\<close>, and \<open>facing\<close>, \<open>furnishing\<close>, \<open>parking\<close> are the
  \<^verbatim>\<open>features\<close> sub-document.
\<close>

record Property =
  prop_id :: objectId
  seller :: objectId
  title :: string
  type :: string
  price :: rat
  area :: rat
  bedrooms :: int
  bathrooms :: int
  city :: string
  location :: string
  amenities :: "string list"
  facing :: string
  furnishing :: string
  parking :: int
  isFeatured :: bool
  isVerified :: bool
  isActive :: bool
  status :: string
  viewCount :: int
  uniqueViews :: int
  createdAt :: date

text \<open>
  The three collections the modelled code touches. Each is a list in the store's natural
  (insertion) order; \<open>users\<close> holds the ids of the user documents.
\<close>

record db =
  views :: "PropertyView list"
  properties :: "Property list"
  users :: "objectId list"

text \<open>
  Errors are values: \<open>Error msg\<close> is a JavaScript \<^verbatim>\<open>Error\<close> thrown by the code with that
  message, \<open>StoreError\<close> a rejection raised by the store itself, and
  \<open>ValidationError paths\<close> the error that Mongoose raises when the listed paths of a
  document fail their schema validators.
\<close>

datatype error = Error string | StoreError | ValidationError "string list"

text \<open>\<^verbatim>\<open>Model.findById\<close>: the document with that id, or null.\<close>

definition findById :: "objectId \<Rightarrow> Property list \<Rightarrow> Property option" where
  "findById i ps = find (\<lambda>p. prop_id p = i) ps"

text \<open>
  \<^verbatim>\<open>Model.findByIdAndUpdate\<close> on the two collections: the first document with that id
  is replaced by its update, and nothing changes when there is none.
\<close>

fun findByIdAndUpdate :: "objectId \<Rightarrow> (Property \<Rightarrow> Property) \<Rightarrow> Property list \<Rightarrow> Property list" where
  "findByIdAndUpdate i f [] = []"
| "findByIdAndUpdate i f (p # ps) =
     (if prop_id p = i then f p # ps else p # findByIdAndUpdate i f ps)"

fun viewFindByIdAndUpdate ::
  "objectId \<Rightarrow> (PropertyView \<Rightarrow> PropertyView) \<Rightarrow> PropertyView list \<Rightarrow> PropertyView list" where
  "viewFindByIdAndUpdate i f [] = []"
| "viewFindByIdAndUpdate i f (v # vs) =
     (if view_id v = i then f v # vs else v # viewFindByIdAndUpdate i f vs)"

text \<open>The \<^verbatim>\<open>$inc\<close> updates that the code issues on a listing's counters.\<close>

definition incViewCount :: "Property \<Rightarrow> Property" where
  "incViewCount p = p\<lparr>viewCount := viewCount p + 1\<rparr>"

definition incViewCountAndUniqueViews :: "Property \<Rightarrow> Property" where
  "incViewCountAndUniqueViews p = p\<lparr>viewCount := viewCount p + 1, uniqueViews := uniqueViews p + 1\<rparr>"

section \<open>View recorder\<close>

text \<open>
  The \<^verbatim>\<open>pre("save")\<close> hook of the schema: it sets \<open>bounced\<close> and never clears it.
  Mongoose runs it on \<^verbatim>\<open>create\<close> and \<^verbatim>\<open>save\<close>, and not on \<^verbatim>\<open>findByIdAndUpdate\<close>.
\<close>

definition preSave :: "PropertyView \<Rightarrow> PropertyView" where
  "preSave v = (if viewDuration v < 10 \<and> engagementScore v < 10 then v\<lparr>bounced := True\<rparr> else v)"

text \<open>A fresh \<^verbatim>\<open>_id\<close> for a new view document.\<close>

definition freshViewId :: "PropertyView list \<Rightarrow> objectId" where
  "freshViewId vs = Suc (fold max (map view_id vs) 0)"

text \<open>
  The view data that \<^verbatim>\<open>recordView\<close> destructures. A required string that the caller
  leaves out is the empty string here (both fail the \<^verbatim>\<open>required\<close> validator alike);
  \<open>vd_source\<close> is \<open>None\<close> when the caller leaves it out. The listing id is always
  given.
\<close>

record viewData =
  vd_propertyId :: objectId
  vd_userId :: "objectId option"
  vd_sessionId :: string
  vd_ipAddress :: string
  vd_source :: "string option"

text \<open>
  The validators of the schema on the stored paths of the model: \<^verbatim>\<open>sessionId\<close> and
  \<^verbatim>\<open>ipAddress\<close> are required, \<^verbatim>\<open>source\<close> is an enum. The result lists the failing
  paths.
\<close>

definition sourceEnum :: "string list" where
  "sourceEnum = [''direct'', ''search'', ''featured'', ''trending'', ''similar'', ''profile'',
     ''favorites'', ''notification'', ''external'', ''other'']"

definition validateView :: "PropertyView \<Rightarrow> string list" where
  "validateView v =
     (if sessionId v = [] then [''sessionId''] else []) @
     (if ipAddress v = [] then [''ipAddress''] else []) @
     (if source v \<in> set sourceEnum then [] else [''source''])"

text \<open>
  \<^verbatim>\<open>Model.create\<close> for the fields that \<^verbatim>\<open>recordView\<close> passes: the \<^verbatim>\<open>trim\<close> setters
  run, the other fields take their schema defaults, the document is validated, and only a
  valid document goes through the hook and is appended to the collection.
\<close>

definition create ::
  "objectId \<Rightarrow> objectId option \<Rightarrow> string \<Rightarrow> string \<Rightarrow> string \<Rightarrow> bool \<Rightarrow> date
     \<Rightarrow> PropertyView list \<Rightarrow> error + PropertyView \<times> PropertyView list" where
  "create propertyId userId sid ip src uniq stamp vs =
     (let doc = \<lparr>view_id = freshViewId vs, property = propertyId, viewer = userId,
                 sessionId = trim sid, ipAddress = trim ip, source = src,
                 viewDuration = 0, scrollDepth = 0, interactions = defaultInteractions,
                 bounced = False, isUnique = uniq, viewedAt = stamp, exitedAt = None\<rparr>
      in if validateView doc \<noteq> [] then Inl (ValidationError (validateView doc))
         else let view = preSave doc in Inr (view, vs @ [view]))"

text \<open>
  The static \<^verbatim>\<open>recordView\<close> (models/PropertyView.js); \<open>now\<close> is the value of
  \<^verbatim>\<open>Date.now()\<close>, read as one instant. The first branch of the \<^verbatim>\<open>$or\<close> is the object
  literal \<^verbatim>\<open>{ viewer: userId, viewer: { $ne: null } }\<close>: a literal with a repeated key
  keeps the last value, so the branch that reaches the store is
  \<^verbatim>\<open>{ viewer: { $ne: null } }\<close>. Mongoose casts the filter with the schema, so the session
  id is compared trimmed, as it is stored. When \<^verbatim>\<open>create\<close> throws, the function throws
  before either \<^verbatim>\<open>$inc\<close> and the store is left as it was.
\<close>

definition recordView :: "date \<Rightarrow> viewData \<Rightarrow> db \<Rightarrow> (error + PropertyView) \<times> db" where
  "recordView now vd d =
     (let propertyId = vd_propertyId vd;
          userId = vd_userId vd;
          sid = vd_sessionId vd;
          src = (case vd_source vd of None \<Rightarrow> ''direct'' | Some s \<Rightarrow> s);
          oneDayAgo = now - 24 * 60 * 60 * 1000;
          recentView = find (\<lambda>v. property v = propertyId \<and>
                                  (viewer v \<noteq> None \<or> sessionId v = trim sid) \<and>
                                  viewedAt v \<ge> oneDayAgo) (views d);
          uniq = (recentView = None)
      in case create propertyId userId sid (vd_ipAddress vd) src uniq now (views d) of
           Inl e \<Rightarrow> (Inl e, d)
         | Inr (view, vs) \<Rightarrow>
             (Inr view,
              d\<lparr>views := vs,
                properties :=
                  (if uniq
                   then findByIdAndUpdate propertyId incViewCountAndUniqueViews (properties d)
                   else findByIdAndUpdate propertyId incViewCount (properties d))\<rparr>))"

text \<open>
  The static \<^verbatim>\<open>updateInteraction\<close>: \<^verbatim>\<open>$set\<close> of the path
  \<^verbatim>\<open>interactions.<name>\<close> to true on the view with that id (a path outside the schema
  is dropped; true is cast to 1 on the numeric \<^verbatim>\<open>imageViews\<close>). The result is the
  updated document, or null.
\<close>

definition setInteraction :: "string \<Rightarrow> interactions \<Rightarrow> interactions" where
  "setInteraction name i =
     (if name = ''imageViews'' then i\<lparr>imageViews := 1\<rparr>
      else if name = ''imageGalleryOpened'' then i\<lparr>imageGalleryOpened := True\<rparr>
      else if name = ''mapViewed'' then i\<lparr>mapViewed := True\<rparr>
      else if name = ''contactClicked'' then i\<lparr>contactClicked := True\<rparr>
      else if name = ''phoneRevealed'' then i\<lparr>phoneRevealed := True\<rparr>
      else if name = ''whatsappClicked'' then i\<lparr>whatsappClicked := True\<rparr>
      else if name = ''shareClicked'' then i\<lparr>shareClicked := True\<rparr>
      else if name = ''favorited'' then i\<lparr>favorited := True\<rparr>
      else if name = ''inquirySent'' then i\<lparr>inquirySent := True\<rparr>
      else i)"

definition updateInteraction :: "objectId \<Rightarrow> string \<Rightarrow> db \<Rightarrow> PropertyView option \<times> db" where
  "updateInteraction viewId interaction d =
     (let vs = viewFindByIdAndUpdate viewId
                 (\<lambda>v. v\<lparr>interactions := setInteraction interaction (interactions v)\<rparr>) (views d)
      in (find (\<lambda>v. view_id v = viewId) vs, d\<lparr>views := vs\<rparr>))"

text \<open>The static \<^verbatim>\<open>endViewSession\<close>: a plain field update, again without the hook.\<close>

definition endViewSession ::
  "date \<Rightarrow> objectId \<Rightarrow> rat \<Rightarrow> rat \<Rightarrow> db \<Rightarrow> PropertyView option \<times> db" where
  "endViewSession now viewId duration depth d =
     (let vs = viewFindByIdAndUpdate viewId
                 (\<lambda>v. v\<lparr>viewDuration := duration, scrollDepth := depth, exitedAt := Some now\<rparr>)
                 (views d)
      in (find (\<lambda>v. view_id v = viewId) vs, d\<lparr>views := vs\<rparr>))"

text \<open>
  \<^verbatim>\<open>getPropertyById\<close> of the property service (the second file of
  routes/propertyRoutes.js); the controller of \<^verbatim>\<open>GET /api/properties/:id\<close> calls it with
  \<^verbatim>\<open>incrementView: true\<close>. The returned document is the one read before the update.
\<close>

definition getPropertyById :: "objectId \<Rightarrow> bool \<Rightarrow> db \<Rightarrow> (error + Property) \<times> db" where
  "getPropertyById propertyId incrementView d =
     (case findById propertyId (properties d) of
        None \<Rightarrow> (Inl (Error ''Failed to fetch property: Property not found''), d)
      | Some p \<Rightarrow>
          (Inr p,
           if incrementView \<and> isActive p
           then d\<lparr>properties := findByIdAndUpdate propertyId incViewCount (properties d)\<rparr>
           else d))"

section \<open>Trend aggregator\<close>

text \<open>One output document of the \<^verbatim>\<open>$group\<close> stage: the listing id and its three sums.\<close>

record trendGroup =
  group_id :: objectId
  group_viewCount :: int
  group_uniqueViews :: int
  group_inquiries :: int

text \<open>
  \<^verbatim>\<open>$group\<close> by \<^verbatim>\<open>"$property"\<close>. The store leaves the order of the groups open; the
  model lists them in the order \<open>remdups\<close> gives the keys.
\<close>

definition groupByProperty :: "PropertyView list \<Rightarrow> trendGroup list" where
  "groupByProperty vs =
     map (\<lambda>k. let g = filter (\<lambda>v. property v = k) vs in
            \<lparr>group_id = k,
             group_viewCount = sum_list (map (\<lambda>v. 1) g),
             group_uniqueViews = sum_list (map (\<lambda>v. if isUnique v then 1 else 0) g),
             group_inquiries = sum_list (map (\<lambda>v. if inquirySent (interactions v) then 1 else 0) g)\<rparr>)
         (remdups (map property vs))"

text \<open>
  The static \<^verbatim>\<open>getTrendingProperties\<close> of models/PropertyView.js, stage by stage:
  \<^verbatim>\<open>$match\<close> on the last seven days, \<^verbatim>\<open>$group\<close>, \<^verbatim>\<open>$sort\<close> (descending on both
  keys; the sort is stable on the group order), \<^verbatim>\<open>$limit\<close>, \<^verbatim>\<open>$lookup\<close> and
  \<^verbatim>\<open>$unwind\<close> of the listing (a group whose listing is gone is dropped), and last the
  \<^verbatim>\<open>$match\<close> on \<^verbatim>\<open>property.isActive\<close>. The store rejects a \<^verbatim>\<open>$limit\<close> that is not
  positive.
\<close>

definition getTrendingProperties :: "date \<Rightarrow> int \<Rightarrow> db \<Rightarrow> error + (trendGroup \<times> Property) list" where
  "getTrendingProperties now limit d =
     (let oneWeekAgo = now - 7 * 24 * 60 * 60 * 1000;
          matched = filter (\<lambda>v. viewedAt v \<ge> oneWeekAgo) (views d);
          grouped = groupByProperty matched;
          sorted = sort_key (\<lambda>g. (- group_uniqueViews g, - group_viewCount g)) grouped;
          limited = take (nat limit) sorted;
          unwound = List.map_filter
                      (\<lambda>g. map_option (Pair g) (findById (group_id g) (properties d))) limited
      in if limit \<le> 0 then Inl StoreError
         else Inr (filter (\<lambda>(g, p). isActive p) unwound))"



text \<open>
  \<^verbatim>\<open>Query.limit(n)\<close> of a \<^verbatim>\<open>find\<close>: zero means no limit, and a negative number limits
  to its absolute value.
\<close>

definition queryLimit :: "int \<Rightarrow> 'a list \<Rightarrow> 'a list" where
  "queryLimit n xs = (if n = 0 then xs else take (nat \<bar>n\<bar>) xs)"

text \<open>
  \<^verbatim>\<open>getTrendingProperties(limit, days)\<close> of the property service (the second file of
  routes/propertyRoutes.js), which serves \<^verbatim>\<open>GET /api/properties/trending\<close>.
\<close>

definition serviceGetTrendingProperties :: "date \<Rightarrow> int \<Rightarrow> int \<Rightarrow> db \<Rightarrow> Property list" where
  "serviceGetTrendingProperties now limit days d =
     queryLimit limit
       (sort_key (\<lambda>p. (- viewCount p, - uniqueViews p))
          (filter (\<lambda>p. isActive p \<and> status p = ''active'' \<and>
                        createdAt p \<ge> now - days * 24 * 60 * 60 * 1000) (properties d)))"


section \<open>Search\<close>

text \<open>
  The search parameters as the search controller hands them to the service
  (\<^verbatim>\<open>searchParams\<close>). A parameter that the request does not carry is \<open>None\<close>. A present
  numeric parameter is a decimal string in the request and is given here by the integer
  that \<^verbatim>\<open>parseInt\<close> reads from it; the \<^verbatim>\<open>features\<close> object comes from \<^verbatim>\<open>JSON.parse\<close>
  and its \<^verbatim>\<open>parking\<close> is a JSON number.
\<close>

record searchParams =
  sp_query :: "string option"
  sp_type :: "string option"
  sp_minPrice :: "int option"
  sp_maxPrice :: "int option"
  sp_minArea :: "int option"
  sp_maxArea :: "int option"
  sp_minBedrooms :: "int option"
  sp_maxBedrooms :: "int option"
  sp_bathrooms :: "int option"
  sp_city :: "string option"
  sp_location :: "string option"
  sp_amenities :: "string list option"
  sp_facing :: "string option"
  sp_furnishing :: "string option"
  sp_parking :: "int option"
  sp_isFeatured :: "string option"
  sp_isVerified :: "string option"
  sp_page :: "int option"
  sp_limit :: "int option"
  sp_sortBy :: "string option"

text \<open>The truthiness of an optional string.\<close>

definition truthy :: "string option \<Rightarrow> bool" where
  "truthy s = (case s of None \<Rightarrow> False | Some t \<Rightarrow> t \<noteq> [])"

text \<open>The text of the query when \<^verbatim>\<open>query && query.trim()\<close> holds.\<close>

definition queryText :: "searchParams \<Rightarrow> string option" where
  "queryText sp =
     (case sp_query sp of None \<Rightarrow> None
      | Some q \<Rightarrow> if q \<noteq> [] \<and> trim q \<noteq> [] then Some (trim q) else None)"

text \<open>
  The filter object that \<^verbatim>\<open>searchProperties\<close> (services/searchService.js) builds; a
  clause that the code does not set is \<open>None\<close>. The two fixed clauses
  \<^verbatim>\<open>isActive: true\<close> and \<^verbatim>\<open>status: "active"\<close> are part of \<open>matches\<close> below.
\<close>

record searchFilter =
  f_text :: "string option"
  f_type :: "string option"
  f_price_gte :: "int option"
  f_price_lte :: "int option"
  f_area_gte :: "int option"
  f_area_lte :: "int option"
  f_bedrooms_gte :: "int option"
  f_bedrooms_lte :: "int option"
  f_bathrooms_gte :: "int option"
  f_city :: "string option"
  f_location :: "string option"
  f_isFeatured :: "bool option"
  f_isVerified :: "bool option"
  f_amenities_all :: "string list option"
  f_facing :: "string option"
  f_furnishing :: "string option"
  f_parking_gte :: "int option"

definition buildFilter :: "searchParams \<Rightarrow> searchFilter" where
  "buildFilter sp =
     \<lparr>f_text = queryText sp,
      f_type = (if truthy (sp_type sp) then sp_type sp else None),
      f_price_gte = sp_minPrice sp,
      f_price_lte = sp_maxPrice sp,
      f_area_gte = sp_minArea sp,
      f_area_lte = sp_maxArea sp,
      f_bedrooms_gte = sp_minBedrooms sp,
      f_bedrooms_lte = sp_maxBedrooms sp,
      f_bathrooms_gte = sp_bathrooms sp,
      f_city = (if truthy (sp_city sp) then sp_city sp else None),
      f_location = (if truthy (sp_location sp) then sp_location sp else None),
      f_isFeatured = map_option (\<lambda>v. v = ''true'') (sp_isFeatured sp),
      f_isVerified = map_option (\<lambda>v. v = ''true'') (sp_isVerified sp),
      f_amenities_all = (case sp_amenities sp of None \<Rightarrow> None
                         | Some as \<Rightarrow> if length as > 0 then Some as else None),
      f_facing = (if truthy (sp_facing sp) then sp_facing sp else None),
      f_furnishing = (if truthy (sp_furnishing sp) then sp_furnishing sp else None),
      f_parking_gte = (case sp_parking sp of None \<Rightarrow> None
                       | Some n \<Rightarrow> if n \<noteq> 0 then Some n else None)\<rparr>"

text \<open>
  What the code leaves to the store's engine and to the regular expressions of the
  runtime: whether a listing matches a \<^verbatim>\<open>$text\<close> search, its \<^verbatim>\<open>textScore\<close>, the
  message of the SyntaxError that \<^verbatim>\<open>new RegExp(pattern, "i")\<close> throws (\<open>None\<close> for a
  well-formed pattern), and whether a case-insensitive regular expression (pattern first)
  finds a match in a string.
\<close>

record engine =
  textMatches :: "string \<Rightarrow> Property \<Rightarrow> bool"
  textScore :: "string \<Rightarrow> Property \<Rightarrow> rat"
  regexError :: "string \<Rightarrow> string option"
  regexTest :: "string \<Rightarrow> string \<Rightarrow> bool"

text \<open>When a listing satisfies an optional clause.\<close>

definition clause :: "'a option \<Rightarrow> ('a \<Rightarrow> bool) \<Rightarrow> bool" where
  "clause c P = (case c of None \<Rightarrow> True | Some x \<Rightarrow> P x)"

definition matches :: "engine \<Rightarrow> searchFilter \<Rightarrow> Property \<Rightarrow> bool" where
  "matches eng f p \<longleftrightarrow>
     isActive p \<and> status p = ''active'' \<and>
     clause (f_text f) (\<lambda>q. textMatches eng q p) \<and>
     clause (f_type f) (\<lambda>t. type p = t) \<and>
     clause (f_price_gte f) (\<lambda>n. price p \<ge> of_int n) \<and>
     clause (f_price_lte f) (\<lambda>n. price p \<le> of_int n) \<and>
     clause (f_area_gte f) (\<lambda>n. area p \<ge> of_int n) \<and>
     clause (f_area_lte f) (\<lambda>n. area p \<le> of_int n) \<and>
     clause (f_bedrooms_gte f) (\<lambda>n. bedrooms p \<ge> n) \<and>
     clause (f_bedrooms_lte f) (\<lambda>n. bedrooms p \<le> n) \<and>
     clause (f_bathrooms_gte f) (\<lambda>n. bathrooms p \<ge> n) \<and>
     clause (f_city f) (\<lambda>c. regexTest eng c (city p)) \<and>
     clause (f_location f) (\<lambda>l. regexTest eng l (location p)) \<and>
     clause (f_isFeatured f) (\<lambda>b. isFeatured p = b) \<and>
     clause (f_isVerified f) (\<lambda>b. isVerified p = b) \<and>
     clause (f_amenities_all f) (\<lambda>as. list_all (\<lambda>a. a \<in> set (amenities p)) as) \<and>
     clause (f_facing f) (\<lambda>x. facing p = x) \<and>
     clause (f_furnishing f) (\<lambda>x. furnishing p = x) \<and>
     clause (f_parking_gte f) (\<lambda>n. parking p \<ge> n)"

text \<open>
  The sort object: the list of its keys with their directions (1 ascending, -1
  descending), in the order of the object literal. A sort on the \<^verbatim>\<open>textScore\<close>
  metadata is descending.
\<close>

datatype sortField = ByPrice | ByArea | ByCreatedAt | ByViewCount | ByUniqueViews | ByTextScore

definition sortOf :: "searchParams \<Rightarrow> (sortField \<times> int) list" where
  "sortOf sp =
     (let sortBy = (case sp_sortBy sp of None \<Rightarrow> ''relevance'' | Some s \<Rightarrow> s) in
      if sortBy = ''price_asc'' then [(ByPrice, 1)]
      else if sortBy = ''price_desc'' then [(ByPrice, -1)]
      else if sortBy = ''area_asc'' then [(ByArea, 1)]
      else if sortBy = ''area_desc'' then [(ByArea, -1)]
      else if sortBy = ''newest'' then [(ByCreatedAt, -1)]
      else if sortBy = ''oldest'' then [(ByCreatedAt, 1)]
      else if sortBy = ''popular'' then [(ByViewCount, -1), (ByUniqueViews, -1)]
      else (case queryText sp of Some q \<Rightarrow> [(ByTextScore, -1)] | None \<Rightarrow> [(ByCreatedAt, -1)]))"

text \<open>
  The store's \<^verbatim>\<open>sort\<close>: documents are compared key by key, and documents that agree on
  every key of the sort object stay in the store's natural order.
\<close>

definition fieldValue :: "engine \<Rightarrow> string option \<Rightarrow> sortField \<Rightarrow> Property \<Rightarrow> rat" where
  "fieldValue eng q fld p =
     (case fld of
        ByPrice \<Rightarrow> price p
      | ByArea \<Rightarrow> area p
      | ByCreatedAt \<Rightarrow> of_int (createdAt p)
      | ByViewCount \<Rightarrow> of_int (viewCount p)
      | ByUniqueViews \<Rightarrow> of_int (uniqueViews p)
      | ByTextScore \<Rightarrow> (case q of None \<Rightarrow> 0 | Some t \<Rightarrow> textScore eng t p))"

definition sortKey :: "engine \<Rightarrow> string option \<Rightarrow> (sortField \<times> int) list \<Rightarrow> Property \<Rightarrow> rat list" where
  "sortKey eng q spec p = map (\<lambda>(fld, dir). of_int dir * fieldValue eng q fld p) spec"

text \<open>
  \<^verbatim>\<open>Property.find(filter).sort(sort)\<close>: the full, un-paginated result sequence of a
  search.
\<close>

definition searchMatches :: "engine \<Rightarrow> searchParams \<Rightarrow> db \<Rightarrow> Property list" where
  "searchMatches eng sp d =
     sort_key (sortKey eng (queryText sp) (sortOf sp))
       (filter (matches eng (buildFilter sp)) (properties d))"

record searchResult =
  r_properties :: "Property list"
  currentPage :: int
  totalPages :: "int option"
  totalItems :: nat
  itemsPerPage :: int

text \<open>
  The first SyntaxError of the two \<^verbatim>\<open>new RegExp\<close> calls of \<^verbatim>\<open>searchProperties\<close>:
  the city pattern is compiled before the location pattern, each only when the parameter
  is truthy.
\<close>

definition regexFailure :: "engine \<Rightarrow> searchParams \<Rightarrow> string option" where
  "regexFailure eng sp =
     (case (if truthy (sp_city sp) then Option.bind (sp_city sp) (regexError eng) else None) of
        Some msg \<Rightarrow> Some msg
      | None \<Rightarrow>
          (if truthy (sp_location sp) then Option.bind (sp_location sp) (regexError eng)
           else None))"

text \<open>
  \<^verbatim>\<open>searchProperties\<close> of services/searchService.js. A malformed city or location
  pattern makes \<^verbatim>\<open>new RegExp\<close> throw while the filter is built, before any store call;
  the \<^verbatim>\<open>catch\<close> block rethrows it with the prefix \<^verbatim>\<open>Search failed:\<close>, so
  \<open>buildFilter\<close> and \<open>searchMatches\<close> above describe the requests that get past this
  point. The store rejects a negative \<^verbatim>\<open>skip\<close>, which is caught and rethrown in the same
  way. \<open>totalPages\<close> is \<open>None\<close> when \<^verbatim>\<open>total / limit\<close> is not a finite number. The echo
  of the request in the result's \<^verbatim>\<open>filters\<close> is left out.
\<close>

definition searchProperties :: "engine \<Rightarrow> searchParams \<Rightarrow> db \<Rightarrow> error + searchResult" where
  "searchProperties eng sp d =
     (let page = (case sp_page sp of None \<Rightarrow> 1 | Some n \<Rightarrow> n);
          limit = (case sp_limit sp of None \<Rightarrow> 12 | Some n \<Rightarrow> n);
          skip = (page - 1) * limit;
          total = length (filter (matches eng (buildFilter sp)) (properties d))
      in case regexFailure eng sp of
           Some msg \<Rightarrow> Inl (Error (''Search failed: '' @ msg))
         | None \<Rightarrow>
             if skip < 0 then Inl StoreError
             else Inr \<lparr>r_properties = queryLimit limit (drop (nat skip) (searchMatches eng sp d)),
                       currentPage = page,
                       totalPages = (if limit = 0 then None
                                     else Some \<lceil>fl (of_nat total / of_int limit)\<rceil>),
                       totalItems = total,
                       itemsPerPage = limit\<rparr>)"

text \<open>
  \<^verbatim>\<open>validateSearchProperties\<close> of validators/propertyValidator.js: the list of
  (field, message) errors that the chains collect, in the order of the chains; the closing
  \<^verbatim>\<open>handleValidationErrors\<close> answers 400 exactly when the list is not empty. A
  \<^verbatim>\<open>.optional()\<close> chain is skipped when the parameter is absent. The checks
  \<^verbatim>\<open>isNumeric\<close> and \<^verbatim>\<open>isString\<close> cannot fail on the parameters as typed here.
\<close>

definition checkLength :: "string \<Rightarrow> string option \<Rightarrow> nat \<Rightarrow> nat \<Rightarrow> string \<Rightarrow> (string \<times> string) list" where
  "checkLength field v lo hi msg =
     (case v of None \<Rightarrow> []
      | Some s \<Rightarrow> if lo \<le> length (trim s) \<and> length (trim s) \<le> hi then [] else [(field, msg)])"

definition checkIn :: "string \<Rightarrow> string option \<Rightarrow> string list \<Rightarrow> string \<Rightarrow> (string \<times> string) list" where
  "checkIn field v allowed msg =
     (case v of None \<Rightarrow> [] | Some s \<Rightarrow> if s \<in> set allowed then [] else [(field, msg)])"

definition checkInt :: "string \<Rightarrow> int option \<Rightarrow> int \<Rightarrow> int option \<Rightarrow> string \<Rightarrow> (string \<times> string) list" where
  "checkInt field v lo hi msg =
     (case v of None \<Rightarrow> []
      | Some n \<Rightarrow> if lo \<le> n \<and> (case hi of None \<Rightarrow> True | Some h \<Rightarrow> n \<le> h) then []
                  else [(field, msg)])"

definition validateSearchProperties :: "searchParams \<Rightarrow> (string \<times> string) list" where
  "validateSearchProperties sp =
     checkLength ''q'' (sp_query sp) 2 100 ''Search query must be between 2 and 100 characters'' @
     checkIn ''type'' (sp_type sp) [''flat'', ''plot'', ''villa'', ''commercial'']
       ''Invalid property type'' @
     checkInt ''minBedrooms'' (sp_minBedrooms sp) 0 (Some 20)
       ''Minimum bedrooms must be between 0 and 20'' @
     checkInt ''maxBedrooms'' (sp_maxBedrooms sp) 0 (Some 20)
       ''Maximum bedrooms must be between 0 and 20'' @
     (case (sp_maxBedrooms sp, sp_minBedrooms sp) of
        (Some hi, Some lo) \<Rightarrow>
          if hi < lo
          then [(''maxBedrooms'', ''Maximum bedrooms must be greater than minimum bedrooms'')]
          else []
      | _ \<Rightarrow> []) @
     checkLength ''city'' (sp_city sp) 2 50 ''City must be between 2 and 50 characters'' @
     checkLength ''location'' (sp_location sp) 2 100
       ''Location must be between 2 and 100 characters'' @
     checkInt ''page'' (sp_page sp) 1 None ''Page must be a positive integer'' @
     checkInt ''limit'' (sp_limit sp) 1 (Some 100) ''Limit must be between 1 and 100'' @
     checkIn ''sortBy'' (sp_sortBy sp)
       [''relevance'', ''price_asc'', ''price_desc'', ''newest'', ''popular'']
       ''Invalid sort option''"

section \<open>Similar listings\<close>

text \<open>
  The filter document of \<^verbatim>\<open>getSimilarProperties\<close> for the reference listing
  \<open>property'\<close>. The bounds of the price band are the doubles that
  \<^verbatim>\<open>property.price * 0.7\<close> and \<^verbatim>\<open>property.price * 1.3\<close> evaluate to.
\<close>

definition similarFilter :: "objectId \<Rightarrow> Property \<Rightarrow> Property \<Rightarrow> bool" where
  "similarFilter propertyId property' p \<longleftrightarrow>
     prop_id p \<noteq> propertyId \<and> isActive p \<and> status p = ''active'' \<and>
     type p = type property' \<and> city p = city property' \<and>
     price p \<ge> fl (price property' * fl 0.7) \<and>
     price p \<le> fl (price property' * fl 1.3)"

text \<open>
  \<^verbatim>\<open>getSimilarProperties\<close> of the property service (the second file of
  routes/propertyRoutes.js): a \<^verbatim>\<open>find\<close> with a \<^verbatim>\<open>limit\<close> and no \<^verbatim>\<open>sort\<close>, so the
  matches come in the store's natural order. The error thrown for a missing reference is
  caught and rethrown with the prefix of the \<^verbatim>\<open>catch\<close> block.
\<close>

definition getSimilarProperties :: "objectId \<Rightarrow> int \<Rightarrow> db \<Rightarrow> error + Property list" where
  "getSimilarProperties propertyId limit d =
     (case findById propertyId (properties d) of
        None \<Rightarrow> Inl (Error ''Failed to fetch similar properties: Property not found'')
      | Some property' \<Rightarrow>
          Inr (queryLimit limit (filter (similarFilter propertyId property') (properties d))))"

text \<open>
  The limit that the controller of \<^verbatim>\<open>GET /api/properties/:id/similar\<close> passes to the
  service, \<^verbatim>\<open>parseInt(req.query.limit) || 4\<close>: the query parameter as \<^verbatim>\<open>parseInt\<close> reads
  it (\<open>None\<close> when it is absent or not a number), and 4 in place of an absent value or 0.
\<close>

definition similarLimit :: "int option \<Rightarrow> int" where
  "similarLimit q = (case q of None \<Rightarrow> 4 | Some n \<Rightarrow> if n = 0 then 4 else n)"

text \<open>
  The \<^verbatim>\<open>similarityScore\<close> field that \<^verbatim>\<open>propertyRecommendationsPipeline\<close> (utils/jwt.js)
  adds, for the criteria \<^verbatim>\<open>{ type, city, minPrice, maxPrice }\<close>; the bounds of the
  inner band are the doubles \<^verbatim>\<open>minPrice * 0.9\<close> and \<^verbatim>\<open>maxPrice * 1.1\<close>.
\<close>

definition similarityScore :: "string \<Rightarrow> string \<Rightarrow> rat \<Rightarrow> rat \<Rightarrow> Property \<Rightarrow> int" where
  "similarityScore type' city' minPrice maxPrice p =
     (if type p = type' then 10 else 0) + (if city p = city' then 5 else 0) +
     (if price p \<ge> fl (minPrice * fl 0.9) \<and> price p \<le> fl (maxPrice * fl 1.1) then 5 else 0)"

text \<open>A listing's counters, looked up by id (\<open>None\<close> when there is no such listing).\<close>

definition viewCountOf :: "objectId \<Rightarrow> Property list \<Rightarrow> int option" where
  "viewCountOf i ps = map_option viewCount (findById i ps)"

definition uniqueViewsOf :: "objectId \<Rightarrow> Property list \<Rightarrow> int option" where
  "uniqueViewsOf i ps = map_option uniqueViews (findById i ps)"

section \<open>Sample data\<close>

text \<open>
  Three listings of one seller, in the order of their creation, and a clock value
  (\<open>now0\<close>, ten days after the epoch): listing 9 is active and ten days old, listing 7
  is active and one day old, listing 8 is deactivated.
\<close>

definition listing7 :: Property where
  "listing7 =
     \<lparr>prop_id = 7, seller = 1, title = ''3 BHK Luxury Flat in Vaishali Nagar'', type = ''flat'',
      price = 7500000, area = 1450, bedrooms = 3, bathrooms = 2, city = ''Jaipur'',
      location = ''Vaishali Nagar'', amenities = [''Parking'', ''Lift''], facing = ''east'',
      furnishing = ''furnished'', parking = 1, isFeatured = False, isVerified = True,
      isActive = True, status = ''active'', viewCount = 0, uniqueViews = 0,
      createdAt = 777600000\<rparr>"

definition listing8 :: Property where
  "listing8 = listing7\<lparr>prop_id := 8, title := ''2 BHK Flat in Mansarovar'',
     location := ''Mansarovar'', isActive := False, status := ''inactive''\<rparr>"

definition listing9 :: Property where
  "listing9 = listing7\<lparr>prop_id := 9, title := ''Villa in C-Scheme'', type := ''villa'',
     location := ''C-Scheme'', createdAt := 0\<rparr>"

definition sampleDb :: db where
  "sampleDb = \<lparr>views = [], properties = [listing9, listing7, listing8], users = [1]\<rparr>"

definition now0 :: date where
  "now0 = 864000000"

text \<open>
  View data for a visit of a listing by a viewer in a session, from a fixed address and
  with no source given.
\<close>

definition visit :: "objectId \<Rightarrow> objectId option \<Rightarrow> string \<Rightarrow> viewData" where
  "visit propertyId userId sid =
     \<lparr>vd_propertyId = propertyId, vd_userId = userId, vd_sessionId = sid,
      vd_ipAddress = ''203.0.113.7'', vd_source = None\<rparr>"

text \<open>
  The store after user 1 viewed listing 7 in session \<open>s-1\<close>, one hour before \<open>now0\<close>.
\<close>

definition dbAfterFirstView :: db where
  "dbAfterFirstView = snd (recordView (now0 - 3600000) (visit 7 (Some 1) ''s-1'') sampleDb)"

text \<open>
  The store after four anonymous visits in four sessions, one hour before \<open>now0\<close>
  (two of listing 8, one of listing 7, one of listing 9), and one fetch of listing 7 by id
  through \<^verbatim>\<open>GET /api/properties/:id\<close>.
\<close>

definition trendDb :: db where
  "trendDb =
     (let d1 = snd (recordView (now0 - 3600000) (visit 8 None ''s-a'') sampleDb);
          d2 = snd (recordView (now0 - 3600000) (visit 8 None ''s-b'') d1);
          d3 = snd (recordView (now0 - 3600000) (visit 7 None ''s-c'') d2);
          d4 = snd (recordView (now0 - 3600000) (visit 9 None ''s-d'') d3)
      in snd (getPropertyById 7 True d4))"

text \<open>
  A stand-in for the store's engine (substring tests; a pattern that opens a group and
  never closes it is malformed), and search parameters: none at
  all, an inverted price range, and the two price sort modes.
\<close>

definition sampleEngine :: engine where
  "sampleEngine =
     \<lparr>textMatches = (\<lambda>q p. sublist q (title p)),
      textScore = (\<lambda>q p. if sublist q (title p) then 1 else 0),
      regexError = (\<lambda>pat. if CHR ''('' \<in> set pat \<and> CHR '')'' \<notin> set pat
                           then Some ''Invalid regular expression: Unterminated group''
                           else None),
      regexTest = (\<lambda>pat s. sublist pat s)\<rparr>"

definition noParams :: searchParams where
  "noParams =
     \<lparr>sp_query = None, sp_type = None, sp_minPrice = None, sp_maxPrice = None,
      sp_minArea = None, sp_maxArea = None, sp_minBedrooms = None, sp_maxBedrooms = None,
      sp_bathrooms = None, sp_city = None, sp_location = None, sp_amenities = None,
      sp_facing = None, sp_furnishing = None, sp_parking = None, sp_isFeatured = None,
      sp_isVerified = None, sp_page = None, sp_limit = None, sp_sortBy = None\<rparr>"

definition invertedPriceParams :: searchParams where
  "invertedPriceParams = noParams\<lparr>sp_minPrice := Some 10000000, sp_maxPrice := Some 5000000\<rparr>"

definition priceAscParams :: searchParams where
  "priceAscParams = noParams\<lparr>sp_sortBy := Some ''price_asc''\<rparr>"

definition priceDescParams :: searchParams where
  "priceDescParams = noParams\<lparr>sp_sortBy := Some ''price_desc''\<rparr>"

text \<open>
  A store for the similar-listings lookup: the reference listing 20 (a flat in Jaipur at
  10,000,000) and four candidates, of which 21 and 22 are in the price band, 23 is above
  it and 24 is in another city.
\<close>

definition similarDb :: db where
  "similarDb =
     \<lparr>views = [],
      properties =
        [listing7\<lparr>prop_id := 20, price := 10000000\<rparr>,
         listing7\<lparr>prop_id := 21, price := 12500000\<rparr>,
         listing7\<lparr>prop_id := 22, price := 10500000\<rparr>,
         listing7\<lparr>prop_id := 23, price := 14000000\<rparr>,
         listing7\<lparr>prop_id := 24, price := 10000000, city := ''Delhi''\<rparr>],
      users = [1]\<rparr>"

text \<open>
  A visit that is recorded, closed out after 400 seconds at full scroll depth, and on
  which an inquiry is then sent: the three calls the client makes, in order.
\<close>

definition closedOutView :: "PropertyView option" where
  "closedOutView =
     (case recordView now0 (visit 7 None ''s-9'') sampleDb of
        (Inl e, d1) \<Rightarrow> None
      | (Inr view, d1) \<Rightarrow>
          (let (closed, d2) = endViewSession (now0 + 400000) (view_id view) 400 100 d1;
               (updated, d3) = updateInteraction (view_id view) ''inquirySent'' d2
           in updated))"


section \<open>Lemmas about double rounding\<close>

text \<open>
  The exponent computed on integers, for evaluation: \<open>floorlog\<close> on a natural number
  counts in unary.
\<close>

lemma nat_pred: "nat a - 1 = nat (a - 1)"
  by (cases "a \<le> 0") (simp_all add: nat_diff_distrib')

lemma expo_code [code]:
  "expo x = (if x \<ge> 1 then bitlen \<lfloor>x\<rfloor> - 1 else - bitlen (\<lceil>1 / x\<rceil> - 1))"
  unfolding expo_def bitlen_def nat_pred ..

lemma floorlog2_pos: "0 < n \<Longrightarrow> 0 < floorlog 2 n"
  by (simp add: floorlog_def)

lemma expo_bounds_ge1:
  assumes "1 \<le> x"
  shows "2 powi expo x \<le> x \<and> x < 2 powi (expo x + 1)"
proof -
  define n where "n = nat \<lfloor>x\<rfloor>"
  define k where "k = floorlog 2 n"
  have fx: "1 \<le> \<lfloor>x\<rfloor>" using assms by linarith
  then have npos: "0 < n" by (simp add: n_def)
  have nx: "(of_nat n :: rat) = of_int \<lfloor>x\<rfloor>"
    using fx by (simp add: n_def)
  have kpos: "0 < k" unfolding k_def by (rule floorlog2_pos [OF npos])
  have b: "2 ^ (k - 1) \<le> n" "n < 2 ^ k"
    using floorlog_bounds [of n 2] npos by (simp_all add: k_def)
  have e: "expo x = int k - 1"
    using assms by (simp add: expo_def k_def n_def)
  have p1: "(2::rat) powi (int k - 1) = 2 ^ (k - 1)"
    using kpos by (simp add: power_int_def nat_diff_distrib)
  have p2: "(2::rat) powi (int k - 1 + 1) = 2 ^ k"
    by simp
  have "(of_nat (2 ^ (k - 1)) :: rat) \<le> of_nat n"
    using b(1) by (simp only: of_nat_le_iff)
  then have "(2::rat) ^ (k - 1) \<le> of_nat n" by simp
  also have "\<dots> \<le> x" unfolding nx by simp
  finally have lo: "(2::rat) ^ (k - 1) \<le> x" .
  have "n + 1 \<le> 2 ^ k" using b(2) by simp
  then have "(of_nat (n + 1) :: rat) \<le> of_nat (2 ^ k)"
    by (simp only: of_nat_le_iff)
  then have "(of_nat n :: rat) + 1 \<le> 2 ^ k" by simp
  moreover have "x < of_int \<lfloor>x\<rfloor> + 1"
    by linarith
  ultimately have hi: "x < 2 ^ k" unfolding nx by linarith
  show ?thesis unfolding e p1 p2 using lo hi by simp
qed

lemma expo_bounds_lt1:
  assumes "0 < x" "x < 1"
  shows "2 powi expo x \<le> x \<and> x < 2 powi (expo x + 1)"
proof -
  define y where "y = 1 / x"
  define c where "c = \<lceil>y\<rceil>"
  define n where "n = nat c - 1"
  define k where "k = floorlog 2 n"
  have y1: "1 < y" using assms by (simp add: y_def)
  then have c2: "2 \<le> c" unfolding c_def by linarith
  then have npos: "0 < n" by (simp add: n_def)
  have nc: "int n = c - 1" using c2 by (simp add: n_def)
  have kpos: "0 < k" unfolding k_def by (rule floorlog2_pos [OF npos])
  have b: "2 ^ (k - 1) \<le> n" "n < 2 ^ k"
    using floorlog_bounds [of n 2] npos by (simp_all add: k_def)
  have e: "expo x = - int k"
    using assms by (simp add: expo_def k_def n_def c_def y_def)
  have ycl: "y \<le> of_int c" "of_int c - 1 < y"
    unfolding c_def by linarith+
  have "c = int n + 1" using nc by simp
  then have ncr: "(of_int c :: rat) = of_nat n + 1" by simp
  have "n + 1 \<le> 2 ^ k" using b(2) by simp
  then have "(of_nat (n + 1) :: rat) \<le> of_nat (2 ^ k)"
    by (simp only: of_nat_le_iff)
  then have "(of_nat n :: rat) + 1 \<le> 2 ^ k" by simp
  then have yk: "y \<le> 2 ^ k" using ycl(1) ncr by linarith
  have "(of_nat (2 ^ (k - 1)) :: rat) \<le> of_nat n"
    using b(1) by (simp only: of_nat_le_iff)
  then have "(2::rat) ^ (k - 1) \<le> of_nat n" by simp
  then have ky: "(2::rat) ^ (k - 1) < y" using ycl(2) ncr by linarith
  have xy: "x = 1 / y" using assms by (simp add: y_def)
  have p1: "(2::rat) powi (- int k) = 1 / 2 ^ k"
    by (simp add: power_int_minus_divide)
  have p2: "(2::rat) powi (- int k + 1) = 1 / 2 ^ (k - 1)"
  proof -
    have "- int k + 1 = - int (k - 1)" using kpos by simp
    then show ?thesis by (simp only: power_int_minus_divide power_int_of_nat)
  qed
  have lo: "1 / 2 ^ k \<le> x"
    unfolding xy using yk y1 by (simp add: field_simps)
  have hi: "x < 1 / 2 ^ (k - 1)"
    unfolding xy using ky y1 by (simp add: field_simps)
  show ?thesis unfolding e p1 p2 using lo hi by simp
qed

lemma expo_bounds:
  assumes "0 < x"
  shows "2 powi expo x \<le> x" "x < 2 powi (expo x + 1)"
  using expo_bounds_ge1 [of x] expo_bounds_lt1 [of x] assms by (cases "1 \<le> x"; simp)+

lemma expo_less:
  assumes "0 < x" "x < 2 powi e"
  shows "expo x < e"
proof (rule ccontr)
  assume "\<not> expo x < e"
  then have "e \<le> expo x" by simp
  then have "(2::rat) powi e \<le> 2 powi expo x"
    by (intro power_int_increasing) simp_all
  with expo_bounds(1) [OF assms(1)] assms(2) show False by linarith
qed




lemma roundHalfEven_of_int [simp]: "roundHalfEven (of_int n) = n"
  by (simp add: roundHalfEven_def)

lemma roundHalfEven_bounds: "\<lfloor>x\<rfloor> \<le> roundHalfEven x" "roundHalfEven x \<le> \<lfloor>x\<rfloor> + 1"
  by (simp_all add: roundHalfEven_def Let_def)

lemma roundHalfEven_mono:
  assumes "x \<le> y"
  shows "roundHalfEven x \<le> roundHalfEven y"
proof (cases "\<lfloor>x\<rfloor> = \<lfloor>y\<rfloor>")
  case True
  have "x - of_int \<lfloor>x\<rfloor> \<le> y - of_int \<lfloor>x\<rfloor>" using assms by simp
  then show ?thesis
    unfolding roundHalfEven_def Let_def True [symmetric] by (simp split: if_splits) linarith?
next
  case False
  then have "\<lfloor>x\<rfloor> + 1 \<le> \<lfloor>y\<rfloor>"
    using floor_mono [OF assms] by linarith
  then show ?thesis
    using roundHalfEven_bounds(2) [of x] roundHalfEven_bounds(1) [of y] by linarith
qed

lemma ulp_pos [simp]: "0 < ulp x"
  by (simp add: ulp_def)

lemma ulp_minus [simp]: "ulp (- x) = ulp x"
  by (simp add: ulp_def)

lemma fl_0 [simp]: "fl 0 = 0"
  by (simp add: fl_def)

lemma fl_minus: "fl (- x) = - fl x"
  by (simp add: fl_def sgn_minus)

lemma fl_pos_eq: "0 < x \<Longrightarrow> fl x = of_int (roundHalfEven (x / ulp x)) * ulp x"
  by (simp add: fl_def)

lemma grid_round_mono:
  assumes "0 < u" "a \<le> b"
  shows "of_int (roundHalfEven (a / u)) * u \<le> (of_int (roundHalfEven (b / u)) * u :: rat)"
proof -
  have "a / u \<le> b / u" using assms by (simp add: divide_right_mono)
  then have "roundHalfEven (a / u) \<le> roundHalfEven (b / u)" by (rule roundHalfEven_mono)
  then have "(of_int (roundHalfEven (a / u)) :: rat) \<le> of_int (roundHalfEven (b / u))" by simp
  then show ?thesis using assms(1) by (simp add: mult_right_mono)
qed

lemma grid_round_point:
  "of_int (roundHalfEven ((of_int m * u) / u)) * u = (of_int m * u :: rat)" if "0 < u"
  using that by simp

text \<open>
  A positive number rounds to at most the next power of two above it, and to at least the
  power of two below it.
\<close>

lemma fl_pos_upper:
  assumes "0 < x"
  shows "fl x \<le> 2 powi (max (expo x) (- 1022) + 1)"
proof -
  define e where "e = max (expo x) (- 1022)"
  have u: "ulp x = 2 powi (e - 52)" using assms by (simp add: ulp_def e_def)
  have "x < 2 powi (expo x + 1)" by (rule expo_bounds(2) [OF assms])
  also have "\<dots> \<le> 2 powi (e + 1)"
    by (intro power_int_increasing) (simp_all add: e_def)
  finally have xle: "x \<le> 2 powi (e + 1)" by simp
  have top: "(2::rat) powi (e + 1) = of_int (2 ^ 53) * ulp x"
  proof -
    have eq: "e + 1 = 53 + (e - 52)" by simp
    have "(2::rat) powi (e + 1) = 2 powi 53 * 2 powi (e - 52)"
      by (subst eq, rule power_int_add) simp
    then show ?thesis by (simp add: u)
  qed
  have "fl x = of_int (roundHalfEven (x / ulp x)) * ulp x" by (rule fl_pos_eq [OF assms])
  also have "\<dots> \<le> of_int (roundHalfEven ((of_int (2 ^ 53) * ulp x) / ulp x)) * ulp x"
    using xle unfolding top by (intro grid_round_mono) simp_all
  also have "\<dots> = of_int (2 ^ 53) * ulp x" by (rule grid_round_point) simp
  finally show ?thesis unfolding top e_def [symmetric] .
qed



lemma fl_nonneg: "0 \<le> x \<Longrightarrow> 0 \<le> fl x"
proof -
  assume "0 \<le> x"
  then have "0 \<le> x / ulp x" by (intro divide_nonneg_pos) simp_all
  then have "0 \<le> \<lfloor>x / ulp x\<rfloor>" by simp
  then have "0 \<le> roundHalfEven (x / ulp x)"
    using roundHalfEven_bounds(1) [of "x / ulp x"] by linarith
  then have "0 \<le> (of_int (roundHalfEven (x / ulp x)) :: rat) * ulp x"
    by (intro mult_nonneg_nonneg) (simp_all add: less_imp_le)
  then show ?thesis using \<open>0 \<le> x\<close> by (cases "x = 0") (simp_all add: fl_def sgn_if)
qed




lemma fl_grid:
  assumes "0 < m" "m \<le> 2 ^ 53" "- 1022 \<le> e"
  shows "fl (of_int m * 2 powi (e - 52)) = of_int m * 2 powi (e - 52)"
proof -
  define r :: rat where "r = of_int m * 2 powi (e - 52)"
  have rpos: "0 < r" using assms(1) by (simp add: r_def)
  define er where "er = max (expo r) (- 1022)"
  have u: "ulp r = 2 powi (er - 52)" using rpos by (simp add: ulp_def er_def)
  have top: "(2::rat) powi (e + 1) = of_int (2 ^ 53) * 2 powi (e - 52)"
  proof -
    have eq: "e + 1 = 53 + (e - 52)" by simp
    have "(2::rat) powi (e + 1) = 2 powi 53 * 2 powi (e - 52)"
      by (subst eq, rule power_int_add) simp
    then show ?thesis by simp
  qed
  have "(of_int m :: rat) \<le> of_int (2 ^ 53)" using assms(2) by (simp only: of_int_le_iff)
  then have rle: "r \<le> 2 powi (e + 1)"
    unfolding top r_def by (intro mult_right_mono) simp_all
  also have "\<dots> < 2 powi (e + 2)" by (intro power_int_strict_increasing) simp_all
  finally have "expo r < e + 2" by (rule expo_less [OF rpos])
  then have erle: "er \<le> e + 1" using assms(3) by (simp add: er_def)
  have quot: "r / ulp r = of_int m * 2 powi (e - er)"
  proof -
    have "(2::rat) powi (e - 52) / 2 powi (er - 52) = 2 powi ((e - 52) - (er - 52))"
      by (rule power_int_diff [symmetric]) simp
    then have d: "(2::rat) powi (e - 52) / 2 powi (er - 52) = 2 powi (e - er)" by simp
    have "r / ulp r = of_int m * (2 powi (e - 52) / 2 powi (er - 52))"
      unfolding u by (simp add: r_def)
    then show ?thesis unfolding d .
  qed
  have "\<exists>k. r / ulp r = of_int k"
  proof (cases "er \<le> e")
    case True
    then have "(2::rat) powi (e - er) = of_int (2 ^ nat (e - er))"
      by (simp add: power_int_def)
    then have "r / ulp r = of_int (m * 2 ^ nat (e - er))" by (simp add: quot)
    then show ?thesis by blast
  next
    case False
    then have eq: "er = e + 1" using erle by simp
    then have "er = expo r" using assms(3) by (simp add: er_def max_def split: if_splits)
    then have "2 powi (e + 1) \<le> r" using expo_bounds(1) [OF rpos] eq by simp
    then have "r = 2 powi (e + 1)" using rle by simp
    then have "of_int m * 2 powi (e - 52) = of_int (2 ^ 53) * (2::rat) powi (e - 52)"
      unfolding top r_def .
    then have m: "(of_int m :: rat) = of_int (2 ^ 53)" by simp
    have "(2::rat) powi (e - er) = 1 / 2" by (simp add: eq)
    then have "r / ulp r = of_int (2 ^ 52)" unfolding quot m by simp
    then show ?thesis by blast
  qed
  then obtain k where k: "r / ulp r = of_int k" by blast
  have "fl r = of_int (roundHalfEven (r / ulp r)) * ulp r" by (rule fl_pos_eq [OF rpos])
  also have "\<dots> = (r / ulp r) * ulp r" by (simp add: k)
  also have "\<dots> = r"
  proof -
    have "ulp r \<noteq> 0" using ulp_pos [of r] by linarith
    then show ?thesis by simp
  qed
  finally show ?thesis by (simp add: r_def)
qed

lemma fl_idem_pos:
  assumes "0 < x"
  shows "fl (fl x) = fl x"
proof -
  define e where "e = max (expo x) (- 1022)"
  define m where "m = roundHalfEven (x / ulp x)"
  have u: "ulp x = 2 powi (e - 52)" using assms by (simp add: ulp_def e_def)
  have fx: "fl x = of_int m * 2 powi (e - 52)"
    by (simp add: fl_pos_eq [OF assms] m_def u)
  have "0 \<le> fl x" using assms by (intro fl_nonneg) simp
  moreover have "0 < (2::rat) powi (e - 52)" by simp
  ultimately have m0: "0 \<le> m" unfolding fx by (auto simp: zero_le_mult_iff)
  have top: "(2::rat) powi (e + 1) = of_int (2 ^ 53) * 2 powi (e - 52)"
  proof -
    have eq: "e + 1 = 53 + (e - 52)" by simp
    have "(2::rat) powi (e + 1) = 2 powi 53 * 2 powi (e - 52)"
      by (subst eq, rule power_int_add) simp
    then show ?thesis by simp
  qed
  have "fl x \<le> 2 powi (e + 1)" using fl_pos_upper [OF assms] by (simp add: e_def)
  then have "(of_int m :: rat) * 2 powi (e - 52) \<le> of_int (2 ^ 53) * 2 powi (e - 52)"
    unfolding fx top .
  then have "(of_int m :: rat) \<le> of_int (2 ^ 53)" by simp
  then have m53: "m \<le> 2 ^ 53" by (simp only: of_int_le_iff)
  show ?thesis
  proof (cases "m = 0")
    case True
    then show ?thesis by (simp add: fx)
  next
    case False
    then have "0 < m" using m0 by simp
    then show ?thesis unfolding fx by (rule fl_grid [OF _ m53]) (simp add: e_def)
  qed
qed

lemma fl_idem [simp]: "fl (fl x) = fl x"
proof -
  consider "0 < x" | "x = 0" | "x < 0" by linarith
  then show ?thesis
  proof cases
    case 1 then show ?thesis by (rule fl_idem_pos)
  next
    case 2 then show ?thesis by simp
  next
    case 3
    then have "fl (fl (- x)) = fl (- x)" by (intro fl_idem_pos) simp
    then show ?thesis by (simp add: fl_minus)
  qed
qed

lemma fl_of_int:
  assumes "\<bar>n\<bar> \<le> 2 ^ 53"
  shows "fl (of_int n) = of_int n"
proof -
  have pos: "fl (of_int k) = of_int k" if "0 < k" "k \<le> 2 ^ 53" for k
    using fl_grid [of k 52] that by simp
  consider "0 < n" | "n = 0" | "n < 0" by linarith
  then show ?thesis
  proof cases
    case 1 then show ?thesis using pos [of n] assms by simp
  next
    case 2 then show ?thesis by simp
  next
    case 3
    then have "fl (of_int (- n)) = of_int (- n)" using assms by (intro pos) simp_all
    then show ?thesis by (simp add: fl_minus)
  qed
qed

lemma fl_numeral [simp]: "fl 5 = 5" "fl 7 = 7" "fl 8 = 8" "fl 10 = 10" "fl 15 = 15" "fl 30 = 30"
  using fl_of_int [of 5] fl_of_int [of 7] fl_of_int [of 8] fl_of_int [of 10] fl_of_int [of 15]
    fl_of_int [of 30] by simp_all

section \<open>Lemmas about the engagement scorer\<close>









lemma fl_baseScore [simp]: "fl (baseScore d s) = baseScore d s"
  by (simp add: baseScore_def)










section \<open>Properties of the engagement scorer\<close>




text \<open>
  C2. The seven weighted flags add 5 + 5 + 10 + 8 + 7 + 10 + 15 = 60 points, not at most 50
  as the code's own comment (\<^verbatim>\<open>// Interactions (50 points total)\<close>) and the claim say:
  an event with every weighted flag set and neither duration nor scroll depth scores 60.
\<close>

theorem engagementScore_all_flags_is_60:
  "viewDuration allFlagsView = 0 \<and> scrollDepth allFlagsView = 0 \<and>
   engagementScore allFlagsView = 60"
  by code_simp

section \<open>Lemmas about the store\<close>

lemma findById_findByIdAndUpdate:
  assumes "\<And>p. prop_id (f p) = prop_id p"
  shows "findById q (findByIdAndUpdate i f ps) =
           (if q = i then map_option f (findById q ps) else findById q ps)"
  using assms by (induction ps) (auto simp: findById_def)

lemma viewCountOf_inc:
  "viewCountOf q (findByIdAndUpdate i incViewCount ps) =
     (if q = i then map_option (\<lambda>n. n + 1) (viewCountOf q ps) else viewCountOf q ps)"
  by (simp add: viewCountOf_def findById_findByIdAndUpdate incViewCount_def
      option.map_comp comp_def)

lemma uniqueViewsOf_inc:
  "uniqueViewsOf q (findByIdAndUpdate i incViewCount ps) = uniqueViewsOf q ps"
  by (simp add: uniqueViewsOf_def findById_findByIdAndUpdate incViewCount_def
      option.map_comp comp_def option.map_ident)



section \<open>Properties of the view recorder\<close>

lemma isUnique_preSave: "isUnique (preSave v) = isUnique v"
  by (simp add: preSave_def)

lemma bounced_preSave:
  "bounced (preSave v) \<longleftrightarrow> bounced v \<or> (viewDuration v < 10 \<and> engagementScore v < 10)"
  by (auto simp: preSave_def)

text \<open>
  What the code decides: the new event is unique exactly when the listing has, in the last
  24 hours, neither an event of the same session nor an event of any authenticated viewer.
\<close>

lemma create_Inr:
  assumes "create propertyId userId sid ip src uniq stamp vs = Inr (view, vs')"
  shows "isUnique view = uniq" "property view = propertyId" "viewer view = userId"
    "sessionId view = trim sid" "vs' = vs @ [view]"
  using assms by (auto simp: create_def Let_def preSave_def split: if_splits)




text \<open>
  What the code decides: the new event is unique exactly when the listing has, in the last
  24 hours, neither an event of the same session nor an event of any authenticated viewer.
\<close>

lemma recordView_isUnique:
  assumes "fst (recordView now vd d) = Inr view"
  shows "isUnique view \<longleftrightarrow>
     \<not> (\<exists>v \<in> set (views d). property v = vd_propertyId vd \<and>
           (viewer v \<noteq> None \<or> sessionId v = trim (vd_sessionId vd)) \<and>
           viewedAt v \<ge> now - 86400000)"
proof -
  obtain vs where c: "create (vd_propertyId vd) (vd_userId vd) (vd_sessionId vd) (vd_ipAddress vd)
             (case vd_source vd of None \<Rightarrow> ''direct'' | Some s \<Rightarrow> s)
             (find (\<lambda>v. property v = vd_propertyId vd \<and>
                     (viewer v \<noteq> None \<or> sessionId v = trim (vd_sessionId vd)) \<and>
                     viewedAt v \<ge> now - 24 * 60 * 60 * 1000) (views d) = None)
             now (views d) = Inr (view, vs)"
    using assms by (auto simp: recordView_def Let_def split: sum.splits prod.splits)
  show ?thesis
    unfolding create_Inr(1) [OF c] by (auto simp: find_None_iff)
qed

lemma recordView_properties:
  assumes "fst (recordView now vd d) = Inr view"
  shows "properties (snd (recordView now vd d)) =
     (if isUnique view
      then findByIdAndUpdate (vd_propertyId vd) incViewCountAndUniqueViews (properties d)
      else findByIdAndUpdate (vd_propertyId vd) incViewCount (properties d))"
proof -
  obtain vs where c: "create (vd_propertyId vd) (vd_userId vd) (vd_sessionId vd) (vd_ipAddress vd)
             (case vd_source vd of None \<Rightarrow> ''direct'' | Some s \<Rightarrow> s)
             (find (\<lambda>v. property v = vd_propertyId vd \<and>
                     (viewer v \<noteq> None \<or> sessionId v = trim (vd_sessionId vd)) \<and>
                     viewedAt v \<ge> now - 24 * 60 * 60 * 1000) (views d) = None)
             now (views d) = Inr (view, vs)"
    using assms by (auto simp: recordView_def Let_def split: sum.splits prod.splits)
  show ?thesis
    using c create_Inr(1) [OF c] by (simp add: recordView_def Let_def)
qed

text \<open>
  C1. The uniqueness check does not compare viewer identities: the first \<^verbatim>\<open>$or\<close> branch
  matches every event of an authenticated viewer. One hour after user 1 viewed listing 7
  in session \<open>s-1\<close> (the only event in the store), a first view by user 2 in session
  \<open>s-2\<close> and a first anonymous view in session \<open>s-3\<close> are both recorded as not unique,
  although no prior event shares their viewer or their session.
\<close>

theorem recordView_other_viewer_not_unique:
  "map property (views dbAfterFirstView) = [7] \<and>
   map viewer (views dbAfterFirstView) = [Some 1] \<and>
   map sessionId (views dbAfterFirstView) = [''s-1''] \<and>
   map viewedAt (views dbAfterFirstView) = [now0 - 3600000] \<and>
   map_sum id isUnique (fst (recordView now0 (visit 7 (Some 2) ''s-2'') dbAfterFirstView))
     = Inr False \<and>
   map_sum id isUnique (fst (recordView now0 (visit 7 None ''s-3'') dbAfterFirstView))
     = Inr False"
  by code_simp

theorem recordView_other_viewer_not_unique_witness:
  "viewCountOf 7 (properties dbAfterFirstView) = Some 1 \<and>
   uniqueViewsOf 7 (properties dbAfterFirstView) = Some 1 \<and>
   viewCountOf 7 (properties (snd (recordView now0 (visit 7 (Some 2) ''s-2'') dbAfterFirstView)))
     = Some 2 \<and>
   uniqueViewsOf 7 (properties (snd (recordView now0 (visit 7 (Some 2) ''s-2'') dbAfterFirstView)))
     = Some 1"
proof -
  have base: "viewCountOf 7 (properties dbAfterFirstView) = Some 1"
    "uniqueViewsOf 7 (properties dbAfterFirstView) = Some 1"
    "vd_propertyId (visit 7 (Some 2) ''s-2'') = 7"
    by code_simp+
  obtain view where view:
    "fst (recordView now0 (visit 7 (Some 2) ''s-2'') dbAfterFirstView) = Inr view"
    "isUnique view = False"
    using recordView_other_viewer_not_unique
    by (cases "fst (recordView now0 (visit 7 (Some 2) ''s-2'') dbAfterFirstView)") auto
  show ?thesis
    by (simp add: base view recordView_properties [OF view(1)] viewCountOf_inc uniqueViewsOf_inc)
qed

text \<open>
  The part of the uniqueness rule that the code does implement: a second event of the same
  session on the same listing within 24 hours is never unique.
\<close>

lemma recordView_same_session_not_unique:
  assumes "fst (recordView now vd d) = Inr view"
    and "v \<in> set (views d)" "property v = vd_propertyId vd"
    "sessionId v = trim (vd_sessionId vd)" "viewedAt v \<ge> now - 86400000"
  shows "\<not> isUnique view"
  using assms(2-) unfolding recordView_isUnique [OF assms(1)] by blast

text \<open>
  C6. The stored \<open>bounced\<close> flag is not kept in step with the saved duration, scroll depth
  and interactions: \<^verbatim>\<open>recordView\<close> creates the event with duration 0 and score 0, so the
  hook sets \<open>bounced\<close>; \<^verbatim>\<open>endViewSession\<close> and \<^verbatim>\<open>updateInteraction\<close> then write through
  \<^verbatim>\<open>findByIdAndUpdate\<close>, which runs no hook. The visit closed out at 400 seconds, scroll
  depth 100 and an inquiry sent is stored with score 65, high intent, and \<open>bounced\<close> true.
\<close>

theorem closedOutView_stays_bounced:
  "map_option viewDuration closedOutView = Some 400 \<and>
   map_option scrollDepth closedOutView = Some 100 \<and>
   map_option (inquirySent \<circ> interactions) closedOutView = Some True \<and>
   map_option engagementScore closedOutView = Some 65 \<and>
   map_option isHighIntent closedOutView = Some True \<and>
   map_option bounced closedOutView = Some True"
  by code_simp

text \<open>
  The same values saved in one step (so that the hook sees them) give \<open>bounced\<close> false.
\<close>

lemma saved_long_view_not_bounced:
  "bounced (preSave (sampleView\<lparr>viewDuration := 400, scrollDepth := 100,
       interactions := defaultInteractions\<lparr>inquirySent := True\<rparr>, bounced := False\<rparr>)) = False"
  by (simp add: bounced_preSave sampleView_def)

section \<open>Who writes the view counters\<close>







section \<open>Properties of the trend aggregator\<close>

lemma sorted_wrt_sort_key_rel:
  "sorted_wrt (\<lambda>a b. f a \<le> f b) (sort_key f xs)"
  using sorted_sort_key [of f xs] by (simp add: sorted_map)

lemma sorted_wrt_queryLimit: "sorted_wrt R xs \<Longrightarrow> sorted_wrt R (queryLimit n xs)"
  by (simp add: queryLimit_def sorted_wrt_take)

text \<open>
  What \<^verbatim>\<open>getTrendingProperties\<close> does guarantee: at most \<open>limit\<close> entries, each an
  active listing joined to its own group.
\<close>

lemma getTrendingProperties_Inr:
  assumes "getTrendingProperties now limit d = Inr rs"
  shows "length rs \<le> nat limit"
    and "\<forall>(g, p) \<in> set rs. isActive p \<and> prop_id p = group_id g \<and> p \<in> set (properties d)"
proof -
  define limited where "limited = take (nat limit)
      (sort_key (\<lambda>g. (- group_uniqueViews g, - group_viewCount g))
        (groupByProperty (filter (\<lambda>v. viewedAt v \<ge> now - 7 * 24 * 60 * 60 * 1000) (views d))))"
  define F where "F = (\<lambda>g :: trendGroup. map_option (Pair g) (findById (group_id g) (properties d)))"
  have eq: "rs = filter (\<lambda>(g, p). isActive p) (List.map_filter F limited)"
    using assms by (simp add: getTrendingProperties_def Let_def limited_def F_def split: if_splits)
  have "length rs \<le> length (List.map_filter F limited)"
    unfolding eq by (rule length_filter_le)
  also have "\<dots> \<le> length limited"
    by (simp add: List.map_filter_def)
  also have "\<dots> \<le> nat limit"
    by (simp add: limited_def)
  finally show "length rs \<le> nat limit" .
  show "\<forall>(g, p) \<in> set rs. isActive p \<and> prop_id p = group_id g \<and> p \<in> set (properties d)"
  proof (clarify)
    fix g p assume "(g, p) \<in> set rs"
    then have act: "isActive p" and "(g, p) \<in> set (List.map_filter F limited)"
      by (auto simp: eq)
    then obtain g' where "F g' = Some (g, p)"
      by (auto simp: List.map_filter_def)
    then have "findById (group_id g) (properties d) = Some p"
      by (auto simp: F_def)
    then have "prop_id p = group_id g \<and> p \<in> set (properties d)"
      by (auto simp: findById_def find_Some_iff)
    with act show "isActive p \<and> prop_id p = group_id g \<and> p \<in> set (properties d)"
      by simp
  qed
qed

text \<open>
  C3. The \<^verbatim>\<open>$limit\<close> stage runs before the listings are joined and filtered on
  \<^verbatim>\<open>isActive\<close>, so a deactivated listing takes a place among the first \<open>limit\<close> groups
  and the active listings ranked behind it are lost. In \<open>trendDb\<close> the deactivated
  listing 8 has two unique views in the window and the active listings 7 and 9 one each:
  with limit 1 the result is empty, with limit 2 it holds listing 7 alone. (The sibling
  \<^verbatim>\<open>trendingPropertiesPipeline\<close> and the service's \<^verbatim>\<open>getTrendingProperties\<close> filter on
  activity first and limit afterwards.)
\<close>

theorem getTrendingProperties_limit_precedes_active_filter:
  "map prop_id (properties trendDb) = [9, 7, 8] \<and>
   map isActive (properties trendDb) = [True, True, False] \<and>
   map viewedAt (views trendDb) = [now0 - 3600000, now0 - 3600000, now0 - 3600000, now0 - 3600000] \<and>
   map group_id (groupByProperty (views trendDb)) = [8, 7, 9] \<and>
   map group_uniqueViews (groupByProperty (views trendDb)) = [2, 1, 1] \<and>
   map group_viewCount (groupByProperty (views trendDb)) = [2, 1, 1] \<and>
   getTrendingProperties now0 1 trendDb = Inr [] \<and>
   map_sum id (map (prop_id \<circ> snd)) (getTrendingProperties now0 2 trendDb) = Inr [7]"
  by code_simp





text \<open>
  The service behind \<^verbatim>\<open>GET /api/properties/trending\<close> reads the same stored counters
  and the same creation window, and orders by the view counter itself.
\<close>

lemma serviceGetTrendingProperties_sorted:
  "sorted_wrt (\<lambda>a b. viewCount a \<ge> viewCount b) (serviceGetTrendingProperties now limit days d)"
proof -
  have "sorted_wrt (\<lambda>a b. (- viewCount a, - uniqueViews a) \<le> (- viewCount b, - uniqueViews b))
          (serviceGetTrendingProperties now limit days d)"
    unfolding serviceGetTrendingProperties_def
    by (intro sorted_wrt_queryLimit sorted_wrt_sort_key_rel)
  then show ?thesis
    by (rule sorted_wrt_mono_rel [rotated]) (auto simp: less_eq_prod_def)
qed

lemma serviceGetTrendingProperties_members:
  assumes "p \<in> set (serviceGetTrendingProperties now limit days d)"
  shows "p \<in> set (properties d) \<and> isActive p \<and> status p = ''active'' \<and>
         createdAt p \<ge> now - days * 86400000"
  using assms
  by (auto simp: serviceGetTrendingProperties_def queryLimit_def split: if_splits
      dest: in_set_takeD)

section \<open>Properties of the search\<close>

text \<open>The validator does reject an inverted bedroom range, and it never reads a price.\<close>

lemma validateSearchProperties_bedrooms_range:
  assumes "sp_minBedrooms sp = Some lo" "sp_maxBedrooms sp = Some hi" "hi < lo"
  shows "(''maxBedrooms'', ''Maximum bedrooms must be greater than minimum bedrooms'')
           \<in> set (validateSearchProperties sp)"
  using assms by (simp add: validateSearchProperties_def)

lemma validateSearchProperties_ignores_price:
  "validateSearchProperties (sp\<lparr>sp_minPrice := lo, sp_maxPrice := hi\<rparr>) = validateSearchProperties sp"
  by (simp add: validateSearchProperties_def)

text \<open>
  C7. An inverted price range is not rejected: \<^verbatim>\<open>validateSearchProperties\<close> checks
  \<^verbatim>\<open>maxBedrooms\<close> against \<^verbatim>\<open>minBedrooms\<close> but has no such check for the prices (the
  sibling \<^verbatim>\<open>validateGetAllProperties\<close> has one), and \<^verbatim>\<open>searchProperties\<close> puts both
  bounds into the filter as they come. For \<^verbatim>\<open>minPrice=10000000&maxPrice=5000000\<close> the
  validator reports no error, the filter asks for a price that is at least 10,000,000 and at
  most 5,000,000, and the store is queried and answers with an empty page.
\<close>

theorem inverted_price_range_reaches_store:
  "validateSearchProperties invertedPriceParams = [] \<and>
   f_price_gte (buildFilter invertedPriceParams) = Some 10000000 \<and>
   f_price_lte (buildFilter invertedPriceParams) = Some 5000000 \<and>
   map_sum id r_properties (searchProperties sampleEngine invertedPriceParams sampleDb) = Inr [] \<and>
   map_sum id totalItems (searchProperties sampleEngine invertedPriceParams sampleDb) = Inr 0"
  by code_simp

lemma sortOf_price:
  "sp_sortBy sp = Some ''price_asc'' \<Longrightarrow> sortOf sp = [(ByPrice, 1)]"
  "sp_sortBy sp = Some ''price_desc'' \<Longrightarrow> sortOf sp = [(ByPrice, -1)]"
  by (simp_all add: sortOf_def)

lemma sortKey_price:
  "sortKey eng q [(ByPrice, 1)] p = [price p]"
  "sortKey eng q [(ByPrice, -1)] p = [- price p]"
  by (simp_all add: sortKey_def fieldValue_def)

lemma set_searchMatches:
  "set (searchMatches eng sp d) = {p \<in> set (properties d). matches eng (buildFilter sp) p}"
  by (auto simp: searchMatches_def)

lemma length_searchMatches:
  "length (searchMatches eng sp d) = length (filter (matches eng (buildFilter sp)) (properties d))"
  by (simp add: searchMatches_def)

text \<open>
  C9, as stated, fails on ties: the sort object of \<^verbatim>\<open>price_asc\<close> is \<^verbatim>\<open>{ price: 1 }\<close>
  alone. Listings 9 and 7 have the same price; the search returns the older listing 9
  first.
\<close>

theorem price_asc_ties_not_newest_first:
  "map prop_id (searchMatches sampleEngine priceAscParams sampleDb) = [9, 7] \<and>
   map price (searchMatches sampleEngine priceAscParams sampleDb) = [7500000, 7500000] \<and>
   map createdAt (searchMatches sampleEngine priceAscParams sampleDb) = [0, 777600000]"
  by code_simp

text \<open>
  C9, amended. With sort mode \<^verbatim>\<open>price_asc\<close> the full result sequence is non-decreasing
  in price, with \<^verbatim>\<open>price_desc\<close> non-increasing; the sort object has the price as its only
  key, so the code fixes no order among listings of equal price. The sequence holds
  exactly the matching listings.
\<close>

theorem searchMatches_price_order:
  "(sp_sortBy sp = Some ''price_asc'' \<longrightarrow>
      sortOf sp = [(ByPrice, 1)] \<and>
      sorted_wrt (\<lambda>a b. price a \<le> price b) (searchMatches eng sp d)) \<and>
   (sp_sortBy sp = Some ''price_desc'' \<longrightarrow>
      sortOf sp = [(ByPrice, -1)] \<and>
      sorted_wrt (\<lambda>a b. price a \<ge> price b) (searchMatches eng sp d)) \<and>
   set (searchMatches eng sp d) = {p \<in> set (properties d). matches eng (buildFilter sp) p}"
proof (intro conjI impI)
  assume asc: "sp_sortBy sp = Some ''price_asc''"
  show "sortOf sp = [(ByPrice, 1)]" by (rule sortOf_price(1) [OF asc])
  have "sorted_wrt (\<lambda>a b. [price a] \<le> [price b]) (searchMatches eng sp d)"
    using sorted_wrt_sort_key_rel [of "sortKey eng (queryText sp) [(ByPrice, 1)]"]
    by (simp add: searchMatches_def sortOf_price(1) [OF asc] sortKey_price)
  then show "sorted_wrt (\<lambda>a b. price a \<le> price b) (searchMatches eng sp d)"
    by (rule sorted_wrt_mono_rel [rotated]) auto
next
  assume desc: "sp_sortBy sp = Some ''price_desc''"
  show "sortOf sp = [(ByPrice, -1)]" by (rule sortOf_price(2) [OF desc])
  have "sorted_wrt (\<lambda>a b. [- price a] \<le> [- price b]) (searchMatches eng sp d)"
    using sorted_wrt_sort_key_rel [of "sortKey eng (queryText sp) [(ByPrice, -1)]"]
    by (simp add: searchMatches_def sortOf_price(2) [OF desc] sortKey_price)
  then show "sorted_wrt (\<lambda>a b. price a \<ge> price b) (searchMatches eng sp d)"
    by (rule sorted_wrt_mono_rel [rotated]) auto
next
  show "set (searchMatches eng sp d) = {p \<in> set (properties d). matches eng (buildFilter sp) p}"
    by (rule set_searchMatches)
qed

theorem searchMatches_price_order_witness:
  "sp_sortBy priceAscParams = Some ''price_asc'' \<and>
   sorted_wrt (\<lambda>a b. price a \<le> price b) (searchMatches sampleEngine priceAscParams similarDb) \<and>
   map price (searchMatches sampleEngine priceAscParams similarDb)
     = [10000000, 10000000, 10500000, 12500000, 14000000] \<and>
   sp_sortBy priceDescParams = Some ''price_desc'' \<and>
   sorted_wrt (\<lambda>a b. price a \<ge> price b) (searchMatches sampleEngine priceDescParams similarDb) \<and>
   map price (searchMatches sampleEngine priceDescParams similarDb)
     = [14000000, 12500000, 10500000, 10000000, 10000000]"
proof -
  have modes: "sp_sortBy priceAscParams = Some ''price_asc''"
    "sp_sortBy priceDescParams = Some ''price_desc''"
    by (simp_all add: priceAscParams_def priceDescParams_def)
  have runs: "map price (searchMatches sampleEngine priceAscParams similarDb)
                = [10000000, 10000000, 10500000, 12500000, 14000000]"
    "map price (searchMatches sampleEngine priceDescParams similarDb)
                = [14000000, 12500000, 10500000, 10000000, 10000000]"
    by code_simp+
  show ?thesis
    using modes runs
      searchMatches_price_order [of priceAscParams sampleEngine similarDb]
      searchMatches_price_order [of priceDescParams sampleEngine similarDb]
    by simp
qed

text \<open>
  In the model of the store, listings of equal price keep the store's natural order.
\<close>

lemma searchMatches_price_asc_ties:
  assumes "sp_sortBy sp = Some ''price_asc''"
  shows "filter (\<lambda>p. price p = k) (searchMatches eng sp d) =
         filter (\<lambda>p. price p = k) (filter (matches eng (buildFilter sp)) (properties d))"
  using sort_key_stable [of "sortKey eng (queryText sp) [(ByPrice, 1)]" "[k]"]
  by (simp add: searchMatches_def sortOf_price(1) [OF assms] sortKey_price)

section \<open>Properties of the similar-listings lookup\<close>

lemma subseq_queryLimit: "subseq (queryLimit n xs) xs"
  by (simp add: queryLimit_def prefix_imp_subseq take_is_prefix)

lemma length_queryLimit: "n \<noteq> 0 \<Longrightarrow> length (queryLimit n xs) \<le> nat \<bar>n\<bar>"
  by (simp add: queryLimit_def)

lemma set_queryLimit: "set (queryLimit n xs) \<subseteq> set xs"
  by (auto simp: queryLimit_def dest: in_set_takeD)

text \<open>
  C8, as stated, fails on the ordering: \<^verbatim>\<open>getSimilarProperties\<close> applies no sort. For
  the reference listing 20 it returns listing 21 (similarity score 15: outside the
  10 percent band) before listing 22 (score 20).
\<close>

theorem getSimilarProperties_not_ranked:
  "map_sum id (map prop_id) (getSimilarProperties 20 4 similarDb) = Inr [21, 22] \<and>
   map_sum id (map (similarityScore ''flat'' ''Jaipur'' 10000000 10000000))
     (getSimilarProperties 20 4 similarDb) = Inr [15, 20]"
  by code_simp

lemma length_queryLimit_eq:
  "length (queryLimit n xs) = (if n = 0 then length xs else min (nat \<bar>n\<bar>) (length xs))"
  by (simp add: queryLimit_def min.commute)

lemma prefix_queryLimit: "prefix (queryLimit n xs) xs"
  by (simp add: queryLimit_def take_is_prefix)

lemma similarLimit_nonzero: "similarLimit q \<noteq> 0"
  by (simp add: similarLimit_def split: option.splits)

text \<open>
  The lower bound of the band is a double: for a reference price of 170,000 it lies just
  below 0.7 times the price, so a price between the two is inside the band.
\<close>

lemma price_band_bound_is_rounded: "fl (170000 * fl 0.7) < 170000 * 0.7"
  by code_simp

text \<open>
  C8, amended. The lookup fails with \<^verbatim>\<open>Property not found\<close> when the reference listing
  does not exist. Otherwise it returns the matching listings in the store's order, all of
  them when \<open>limit\<close> is 0 and the first \<open>|limit|\<close> of them otherwise. A listing matches
  when it is not the reference, is active with status \<open>active\<close>, has the type and the
  city of the reference, and its price lies between the doubles that \<^verbatim>\<open>price * 0.7\<close> and
  \<^verbatim>\<open>price * 1.3\<close> evaluate to for the reference price. No similarity score orders the
  result.
\<close>

theorem getSimilarProperties_filters:
  "case findById propertyId (properties d) of
     None \<Rightarrow> getSimilarProperties propertyId limit d
               = Inl (Error ''Failed to fetch similar properties: Property not found'')
   | Some r \<Rightarrow>
       (\<exists>rs. getSimilarProperties propertyId limit d = Inr rs \<and>
             prefix rs (filter (similarFilter propertyId r) (properties d)) \<and>
             subseq rs (properties d) \<and>
             length rs = (if limit = 0 then length (filter (similarFilter propertyId r) (properties d))
                          else min (nat \<bar>limit\<bar>)
                                 (length (filter (similarFilter propertyId r) (properties d)))) \<and>
             (\<forall>p \<in> set rs. prop_id p \<noteq> propertyId \<and> isActive p \<and> status p = ''active'' \<and>
                type p = type r \<and> city p = city r \<and>
                fl (price r * fl 0.7) \<le> price p \<and> price p \<le> fl (price r * fl 1.3)))"
proof (cases "findById propertyId (properties d)")
  case None
  then show ?thesis by (simp add: getSimilarProperties_def)
next
  case (Some r)
  define ms where "ms = filter (similarFilter propertyId r) (properties d)"
  define rs where "rs = queryLimit limit ms"
  have res: "getSimilarProperties propertyId limit d = Inr rs"
    by (simp add: getSimilarProperties_def Some rs_def ms_def)
  have pre: "prefix rs ms"
    unfolding rs_def by (rule prefix_queryLimit)
  have "subseq rs ms"
    unfolding rs_def by (rule subseq_queryLimit)
  moreover have "subseq ms (properties d)"
    unfolding ms_def by (rule subseq_filter_left)
  ultimately have sub: "subseq rs (properties d)"
    by (rule subseq_order.trans)
  have len: "length rs = (if limit = 0 then length ms else min (nat \<bar>limit\<bar>) (length ms))"
    unfolding rs_def by (rule length_queryLimit_eq)
  have "\<forall>p \<in> set rs. similarFilter propertyId r p"
    using set_queryLimit [of limit ms] by (auto simp: rs_def ms_def)
  then have mem: "\<forall>p \<in> set rs. prop_id p \<noteq> propertyId \<and> isActive p \<and> status p = ''active'' \<and>
                type p = type r \<and> city p = city r \<and>
                fl (price r * fl 0.7) \<le> price p \<and> price p \<le> fl (price r * fl 1.3)"
    by (simp add: similarFilter_def)
  from res pre sub len mem have "\<exists>rs. getSimilarProperties propertyId limit d = Inr rs \<and>
             prefix rs ms \<and> subseq rs (properties d) \<and>
             length rs = (if limit = 0 then length ms else min (nat \<bar>limit\<bar>) (length ms)) \<and>
             (\<forall>p \<in> set rs. prop_id p \<noteq> propertyId \<and> isActive p \<and> status p = ''active'' \<and>
                type p = type r \<and> city p = city r \<and>
                fl (price r * fl 0.7) \<le> price p \<and> price p \<le> fl (price r * fl 1.3))"
    by blast
  then show ?thesis
    unfolding ms_def by (simp only: Some option.case)
qed

theorem getSimilarProperties_filters_witness:
  "findById 20 (properties similarDb) = Some (listing7\<lparr>prop_id := 20, price := 10000000\<rparr>) \<and>
   getSimilarProperties 20 4 similarDb
     = Inr [listing7\<lparr>prop_id := 21, price := 12500000\<rparr>, listing7\<lparr>prop_id := 22, price := 10500000\<rparr>] \<and>
   getSimilarProperties 20 (- 1) similarDb = Inr [listing7\<lparr>prop_id := 21, price := 12500000\<rparr>] \<and>
   getSimilarProperties 20 0 similarDb = getSimilarProperties 20 4 similarDb \<and>
   findById 99 (properties similarDb) = None \<and>
   getSimilarProperties 99 4 similarDb
     = Inl (Error ''Failed to fetch similar properties: Property not found'')"
proof -
  have found: "findById 20 (properties similarDb) = Some (listing7\<lparr>prop_id := 20, price := 10000000\<rparr>)"
    and missing: "findById 99 (properties similarDb) = None"
    and run: "getSimilarProperties 20 4 similarDb
      = Inr [listing7\<lparr>prop_id := 21, price := 12500000\<rparr>, listing7\<lparr>prop_id := 22, price := 10500000\<rparr>]"
      "getSimilarProperties 20 (- 1) similarDb = Inr [listing7\<lparr>prop_id := 21, price := 12500000\<rparr>]"
      "getSimilarProperties 20 0 similarDb = getSimilarProperties 20 4 similarDb"
    by code_simp+
  show ?thesis
    using found missing run
      getSimilarProperties_filters [where propertyId = 20 and limit = 4 and d = similarDb]
      getSimilarProperties_filters [where propertyId = 99 and limit = 4 and d = similarDb]
    by simp
qed

end
